theory Spec2Isabelle
  imports Complex_Main "HOL-Library.AList"
begin

text \<open>
  A shallow embedding of the validation library: validators are callable values
  (functions and proxies over functions) applied to data values; a call returns a value or
  throws. The first sections give the values and the operations of the host the library
  relies on (property reads, the \<^verbatim>\<open>in\<close> operator, iteration, coercions), then the library
  function by function, then the properties of the specification.
\<close>

section \<open>Values\<close>

text \<open>
  A JavaScript number: a finite value, one of the two infinities, or NaN. The two zeros
  are one value here: no operation of the library tells them apart.
\<close>

datatype number = NaN | NegInf | Fin real | PosInf

text \<open>
  The values a validator is applied to: primitives, arrays, objects and functions. An
  object is given by the string-keyed properties it has of its own (for an instance of a
  class, also those of the class), together with the finite sequence its
  \<^verbatim>\<open>Symbol.iterator\<close> method yields when it has one (a Set, a Map, a generator). A
  function is given by its own properties; the library never calls a function it reads off
  an input. What a value inherits beyond the properties listed is the host's prototype
  chain, below. Reading a listed property has no effect and an iterator does not throw.
\<close>

datatype jsval =
    VUndefined
  | VNull
  | VBoolean bool
  | VNumber number
  | VString string
  | VArray "jsval list"
  | VObject "(string \<times> jsval) list" "jsval list option"
  | VFunction "(string \<times> jsval) list"

text \<open>What a call can throw: a TypeError of the host, or any value thrown by a caller's predicate.\<close>

datatype exn = TypeError | Thrown jsval

text \<open>
  The value of a property of a function object or of a field map: a data value, a callable,
  or an intrinsic of the host, known only by the name of the inherited property it is read
  from (\<^verbatim>\<open>Object.prototype.toString\<close>).
\<close>

datatype 'f property = Data jsval | Func 'f | Builtin string

text \<open>
  A callable is an arrow function (its \<^verbatim>\<open>name\<close> and its body; every function of the
  library takes one parameter) or \<^verbatim>\<open>new Proxy(target, {get})\<close>: a proxy over a
  callable target whose handler has the \<^verbatim>\<open>get\<close> trap only.
\<close>

datatype callable =
    Arrow string "jsval \<Rightarrow> exn + jsval"
  | Proxy callable "string \<Rightarrow> exn + callable property"

subsection \<open>Host operations\<close>

text \<open>The property names of \<^verbatim>\<open>Object.prototype\<close> and of \<^verbatim>\<open>Function.prototype\<close>.\<close>

definition Object_prototype_keys :: "string list" where
  "Object_prototype_keys =
     [''constructor'', ''__defineGetter__'', ''__defineSetter__'', ''hasOwnProperty'',
      ''__lookupGetter__'', ''__lookupSetter__'', ''isPrototypeOf'', ''propertyIsEnumerable'',
      ''toString'', ''valueOf'', ''__proto__'', ''toLocaleString'']"

definition Function_prototype_keys :: "string list" where
  "Function_prototype_keys =
     [''length'', ''name'', ''arguments'', ''caller'', ''constructor'', ''apply'', ''bind'',
      ''call'', ''toString'']"

text \<open>\<^verbatim>\<open>key in f\<close> for an arrow function \<open>f\<close>: its own \<^verbatim>\<open>length\<close> and \<^verbatim>\<open>name\<close>, then the prototype chain.\<close>

definition Function_HasProperty :: "string \<Rightarrow> bool" where
  "Function_HasProperty key =
     (key = ''length'' \<or> key = ''name'' \<or> key \<in> set Function_prototype_keys
      \<or> key \<in> set Object_prototype_keys)"

text \<open>
  \<^verbatim>\<open>f[key]\<close> for an arrow function named \<open>nm\<close>. The accessors \<^verbatim>\<open>caller\<close> and
  \<^verbatim>\<open>arguments\<close> of \<^verbatim>\<open>Function.prototype\<close> throw.
\<close>

definition Function_Get :: "string \<Rightarrow> string \<Rightarrow> exn + callable property" where
  "Function_Get nm key =
     (if key = ''name'' then Inr (Data (VString nm))
      else if key = ''length'' then Inr (Data (VNumber (Fin 1)))
      else if key = ''caller'' \<or> key = ''arguments'' then Inl TypeError
      else if key \<in> set Function_prototype_keys then Inr (Builtin (''Function.prototype.'' @ key))
      else if key \<in> set Object_prototype_keys then Inr (Builtin (''Object.prototype.'' @ key))
      else Inr (Data VUndefined))"

text \<open>
  The internal methods of a callable. The proxy has no \<^verbatim>\<open>apply\<close> and no \<^verbatim>\<open>has\<close>
  trap, so a call and the \<^verbatim>\<open>in\<close> operator go to its target; a property read goes to
  the \<^verbatim>\<open>get\<close> trap.
\<close>

fun Call :: "callable \<Rightarrow> jsval \<Rightarrow> exn + jsval" where
  "Call (Arrow nm body) item = body item"
| "Call (Proxy target trap) item = Call target item"

fun HasProperty :: "callable \<Rightarrow> string \<Rightarrow> bool" where
  "HasProperty (Arrow nm body) key = Function_HasProperty key"
| "HasProperty (Proxy target trap) key = HasProperty target key"

fun Get :: "callable \<Rightarrow> string \<Rightarrow> exn + callable property" where
  "Get (Arrow nm body) key = Function_Get nm key"
| "Get (Proxy target trap) key = trap key"

text \<open>
  A field map is an object literal whose values are validators: its own properties in the
  order of \<^verbatim>\<open>Object.keys\<close> (keys that are array indices first, in ascending order, then
  the others as declared), each key once; it inherits from \<^verbatim>\<open>Object.prototype\<close>.
\<close>

type_synonym fieldmap = "(string \<times> callable) list"

definition Object_keys :: "(string \<times> 'a) list \<Rightarrow> string list" where
  "Object_keys obj = map fst obj"

text \<open>\<^verbatim>\<open>key in validators\<close>: own properties, then the prototype chain.\<close>

definition Object_HasProperty :: "fieldmap \<Rightarrow> string \<Rightarrow> bool" where
  "Object_HasProperty obj key = (key \<in> set (Object_keys obj) \<or> key \<in> set Object_prototype_keys)"

text \<open>\<^verbatim>\<open>validators[key]\<close>.\<close>

definition Object_Get :: "fieldmap \<Rightarrow> string \<Rightarrow> callable property" where
  "Object_Get obj key =
     (case map_of obj key of
        Some v \<Rightarrow> Func v
      | None \<Rightarrow>
          if key \<in> set Object_prototype_keys then Builtin (''Object.prototype.'' @ key)
          else Data VUndefined)"

text \<open>An array index is a canonical decimal numeral: \<^verbatim>\<open>"0"\<close>, \<^verbatim>\<open>"17"\<close>, not \<^verbatim>\<open>"017"\<close>.\<close>

definition is_digit :: "char \<Rightarrow> bool" where
  "is_digit c = (48 \<le> (of_char c :: nat) \<and> (of_char c :: nat) \<le> 57)"

definition parse_index :: "string \<Rightarrow> nat option" where
  "parse_index s =
     (if s = [] then None
      else if hd s = CHR ''0'' \<and> length s > 1 then None
      else if list_all is_digit s then Some (foldl (\<lambda>n c. 10 * n + (of_char c - 48)) 0 s)
      else None)"

definition index_own :: "jsval list \<Rightarrow> string \<Rightarrow> jsval option" where
  "index_own xs key =
     (if key = ''length'' then Some (VNumber (Fin (real (length xs))))
      else case parse_index key of
             Some i \<Rightarrow> if i < length xs then Some (xs ! i) else None
           | None \<Rightarrow> None)"

text \<open>
  The own properties of a value: a boolean or a number has none; a string and an array have
  their length and their elements; an object and a function have the properties listed.
\<close>

fun own_property :: "jsval \<Rightarrow> string \<Rightarrow> jsval option" where
  "own_property (VString s) key = index_own (map (\<lambda>c. VString [c]) s) key"
| "own_property (VArray xs) key = index_own xs key"
| "own_property (VObject ps it) key = map_of ps key"
| "own_property (VFunction ps) key = map_of ps key"
| "own_property v key = None"

text \<open>
  The prototype chain of the host: \<open>inherited item key\<close> is the outcome of reading
  \<^verbatim>\<open>key\<close> off \<open>item\<close> when \<open>item\<close> has no such property of its own and inherits one
  (a method of \<^verbatim>\<open>Object.prototype\<close>, of \<^verbatim>\<open>Array.prototype\<close>, of \<^verbatim>\<open>Number.prototype\<close>;
  the read of an accessor can throw), and \<open>None\<close> when it inherits none. The library does
  not define the chain: every function that reads a property off an input takes it as its
  first parameter.
\<close>

type_synonym prototype_chain = "jsval \<Rightarrow> string \<Rightarrow> (exn + jsval) option"

text \<open>
  \<^verbatim>\<open>item[key]\<close>. Reading a property of null or undefined throws. Otherwise the read
  yields the own property, else the inherited one, else undefined.
\<close>

definition GetV :: "prototype_chain \<Rightarrow> jsval \<Rightarrow> string \<Rightarrow> exn + jsval" where
  "GetV inherited item key =
     (if item = VNull then Inl TypeError
      else if item = VUndefined then Inl TypeError
      else case own_property item key of
             Some v \<Rightarrow> Inr v
           | None \<Rightarrow> (case inherited item key of Some r \<Rightarrow> r | None \<Rightarrow> Inr VUndefined))"

text \<open>\<^verbatim>\<open>item?.[Symbol.iterator]\<close>, as the sequence the method yields when it is a function.\<close>

fun Symbol_iterator :: "jsval \<Rightarrow> jsval list option" where
  "Symbol_iterator (VString s) = Some (map (\<lambda>c. VString [c]) s)"
| "Symbol_iterator (VArray xs) = Some xs"
| "Symbol_iterator (VObject ps it) = it"
| "Symbol_iterator v = None"

fun typeof :: "jsval \<Rightarrow> string" where
  "typeof VUndefined = ''undefined''"
| "typeof VNull = ''object''"
| "typeof (VBoolean b) = ''boolean''"
| "typeof (VNumber n) = ''number''"
| "typeof (VString s) = ''string''"
| "typeof (VArray xs) = ''object''"
| "typeof (VObject ps it) = ''object''"
| "typeof (VFunction ps) = ''function''"

text \<open>The coercion to boolean of \<^verbatim>\<open>!\<close>, of \<^verbatim>\<open>? :\<close>, and of \<^verbatim>\<open>every\<close> and \<^verbatim>\<open>some\<close>.\<close>

fun ToBoolean :: "jsval \<Rightarrow> bool" where
  "ToBoolean VUndefined = False"
| "ToBoolean VNull = False"
| "ToBoolean (VBoolean b) = b"
| "ToBoolean (VNumber n) = (n \<noteq> NaN \<and> n \<noteq> Fin 0)"
| "ToBoolean (VString s) = (s \<noteq> [])"
| "ToBoolean (VArray xs) = True"
| "ToBoolean (VObject ps it) = True"
| "ToBoolean (VFunction ps) = True"

text \<open>A call whose result is then coerced: the check accepts, or it returns and does not accept.\<close>

definition passes :: "callable \<Rightarrow> jsval \<Rightarrow> bool" where
  "passes check item = (case Call check item of Inr r \<Rightarrow> ToBoolean r | Inl e \<Rightarrow> False)"

definition rejects :: "callable \<Rightarrow> jsval \<Rightarrow> bool" where
  "rejects check item = (case Call check item of Inr r \<Rightarrow> \<not> ToBoolean r | Inl e \<Rightarrow> False)"

section \<open>The library\<close>

subsection \<open>Missing values\<close>

definition isNull :: "jsval \<Rightarrow> bool" where
  "isNull item = (item = VNull)"

definition isUndefined :: "jsval \<Rightarrow> bool" where
  "isUndefined item = (item = VUndefined)"

text \<open>\<^verbatim>\<open>item == null\<close> holds of null and undefined only.\<close>

definition isMissing :: "jsval \<Rightarrow> bool" where
  "isMissing item = (item = VNull \<or> item = VUndefined)"

subsection \<open>The record validator builder\<close>

text \<open>
  The loop of \<^verbatim>\<open>validate\<close> over \<^verbatim>\<open>keys\<close>: read the field's validator off the map and
  the property off the item, call, and return false at the first result that is not truthy.
  Every key of \<^verbatim>\<open>Object.keys\<close> is an own property, so what is read off the map is the
  stored validator; calling a value that is not a function would throw.
\<close>

fun validate_loop :: "prototype_chain \<Rightarrow> fieldmap \<Rightarrow> string list \<Rightarrow> jsval \<Rightarrow> exn + jsval" where
  "validate_loop inherited validators [] item = Inr (VBoolean True)"
| "validate_loop inherited validators (key # keys) item =
     (let validate = Object_Get validators key in
      case GetV inherited item key of
        Inl e \<Rightarrow> Inl e
      | Inr v \<Rightarrow>
          (case validate of
             Func f \<Rightarrow>
               (case Call f v of
                  Inl e \<Rightarrow> Inl e
                | Inr r \<Rightarrow>
                    if \<not> ToBoolean r then Inr (VBoolean False)
                    else validate_loop inherited validators keys item)
           | _ \<Rightarrow> Inl TypeError))"

definition ValidatorMap_validate :: "prototype_chain \<Rightarrow> fieldmap \<Rightarrow> jsval \<Rightarrow> exn + jsval" where
  "ValidatorMap_validate inherited validators item =
     (let keys = Object_keys validators in
      if isMissing item then Inr (VBoolean False)
      else validate_loop inherited validators keys item)"

definition ValidatorMap_get :: "fieldmap \<Rightarrow> string \<Rightarrow> exn + callable property" where
  "ValidatorMap_get validators key =
     (if Object_HasProperty validators key then Inr (Object_Get validators key)
      else Inr (Data VUndefined))"

definition ValidatorMap :: "prototype_chain \<Rightarrow> fieldmap \<Rightarrow> callable" where
  "ValidatorMap inherited validators =
     Proxy (Arrow ''validate'' (ValidatorMap_validate inherited validators))
       (ValidatorMap_get validators)"

subsection \<open>Adapters and leaf predicates\<close>

definition test :: "callable \<Rightarrow> callable" where
  "test check = Arrow [] (\<lambda>item. if isMissing item then Inr (VBoolean False) else Call check item)"

definition unsafeTest :: "callable \<Rightarrow> callable" where
  "unsafeTest check = Arrow [] (\<lambda>item. Call check item)"

definition isTypeof :: "string \<Rightarrow> callable" where
  "isTypeof type = Arrow [] (\<lambda>item. Inr (VBoolean (typeof item = type)))"

definition isString :: callable where
  "isString = isTypeof ''string''"

definition isBoolean :: callable where
  "isBoolean = isTypeof ''boolean''"

definition isNumber :: callable where
  "isNumber = isTypeof ''number''"

text \<open>\<^verbatim>\<open>isNumber(item) && !Number.isNaN(item)\<close>.\<close>

definition isValidNumber :: callable where
  "isValidNumber =
     Arrow ''isValidNumber''
       (\<lambda>item. case Call isNumber item of
                 Inl e \<Rightarrow> Inl e
               | Inr r \<Rightarrow> if \<not> ToBoolean r then Inr r else Inr (VBoolean (item \<noteq> VNumber NaN)))"

definition isArray :: callable where
  "isArray = Arrow ''isArray'' (\<lambda>item. Inr (VBoolean (case item of VArray xs \<Rightarrow> True | _ \<Rightarrow> False)))"

text \<open>\<^verbatim>\<open>typeof iterate === "function" && !isString(item)\<close>.\<close>

definition isIterable :: callable where
  "isIterable =
     Arrow ''isIterable''
       (\<lambda>item. case Symbol_iterator item of
                 None \<Rightarrow> Inr (VBoolean False)
               | Some iterate \<Rightarrow>
                   (case Call isString item of
                      Inl e \<Rightarrow> Inl e
                    | Inr r \<Rightarrow> Inr (VBoolean (\<not> ToBoolean r))))"

subsection \<open>The iterable lifter\<close>

text \<open>
  \<^verbatim>\<open>for (let item of items) if (!check(item)) return false; return true\<close>, over the
  elements the iterator yields. A value without an iterator cannot be iterated: the loop
  would throw, and \<^verbatim>\<open>isIterable\<close> has returned false before.
\<close>

fun for_of :: "callable \<Rightarrow> jsval list \<Rightarrow> exn + jsval" where
  "for_of check [] = Inr (VBoolean True)"
| "for_of check (item # items) =
     (case Call check item of
        Inl e \<Rightarrow> Inl e
      | Inr r \<Rightarrow> if \<not> ToBoolean r then Inr (VBoolean False) else for_of check items)"

definition IterableValidator_validate :: "callable \<Rightarrow> jsval \<Rightarrow> exn + jsval" where
  "IterableValidator_validate check items =
     (case Call isIterable items of
        Inl e \<Rightarrow> Inl e
      | Inr r \<Rightarrow>
          if \<not> ToBoolean r then Inr (VBoolean False)
          else (case Symbol_iterator items of
                  None \<Rightarrow> Inl TypeError
                | Some elems \<Rightarrow> for_of check elems))"

definition IterableValidator_get :: "callable \<Rightarrow> string \<Rightarrow> exn + callable property" where
  "IterableValidator_get check key =
     (if HasProperty check key then Get check key else Inr (Data VUndefined))"

definition IterableValidator :: "callable \<Rightarrow> callable" where
  "IterableValidator check =
     Proxy (Arrow ''validate'' (IterableValidator_validate check)) (IterableValidator_get check)"

subsection \<open>The tree compiler\<close>

text \<open>
  A node of a descriptor is a function (\<^verbatim>\<open>typeof item === "function"\<close>) or a nested
  descriptor object, given by its enumerable properties in the order of \<^verbatim>\<open>for ... in\<close>.
\<close>

datatype descriptor = Leaf callable | Nested "(string \<times> descriptor) list"

fun isLogicalValidator :: "descriptor \<Rightarrow> bool" where
  "isLogicalValidator (Leaf f) = True"
| "isLogicalValidator (Nested sub) = False"

text \<open>
  \<open>buildValidationMap_loop\<close> is the \<^verbatim>\<open>for (let key in tree)\<close> loop with the map \<open>vmap\<close> built
  so far; \<^verbatim>\<open>map[key] = test\<close> overwrites an own property or appends a new one (for every
  key but \<^verbatim>\<open>__proto__\<close>, which no descriptor written as a literal has).
\<close>

fun buildValidationMap_loop :: "prototype_chain \<Rightarrow> (string \<times> descriptor) list \<Rightarrow> fieldmap \<Rightarrow> fieldmap"
  and buildValidationMap :: "prototype_chain \<Rightarrow> (string \<times> descriptor) list \<Rightarrow> fieldmap" where
  "buildValidationMap_loop inherited [] vmap = vmap"
| "buildValidationMap_loop inherited ((key, Leaf f) # rest) vmap =
     buildValidationMap_loop inherited rest (AList.update key f vmap)"
| "buildValidationMap_loop inherited ((key, Nested sub) # rest) vmap =
     buildValidationMap_loop inherited rest
       (AList.update key (ValidatorMap inherited (buildValidationMap inherited sub)) vmap)"
| "buildValidationMap inherited tree = buildValidationMap_loop inherited tree []"

definition ValidationTree :: "prototype_chain \<Rightarrow> (string \<times> descriptor) list \<Rightarrow> callable" where
  "ValidationTree inherited tree = ValidatorMap inherited (buildValidationMap inherited tree)"

subsection \<open>Missing-value policies and composition\<close>

definition optional :: "callable \<Rightarrow> callable" where
  "optional check =
     Arrow [] (\<lambda>item. if isNull item then Inr (VBoolean False)
                      else if isUndefined item then Inr (VBoolean True)
                      else Call check item)"

definition nullable :: "callable \<Rightarrow> callable" where
  "nullable check =
     Arrow [] (\<lambda>item. if isUndefined item then Inr (VBoolean False)
                      else if isNull item then Inr (VBoolean True)
                      else Call check item)"

definition erratic :: "callable \<Rightarrow> callable" where
  "erratic check =
     Arrow [] (\<lambda>item. if isMissing item then Inr (VBoolean True) else Call check item)"

text \<open>
  \<^verbatim>\<open>Array.prototype.every\<close> and \<^verbatim>\<open>some\<close>: the callback's result is coerced to a
  boolean, the first decisive element ends the traversal, and what the callback throws is
  thrown.
\<close>

fun Array_every :: "('a \<Rightarrow> exn + jsval) \<Rightarrow> 'a list \<Rightarrow> exn + jsval" where
  "Array_every f [] = Inr (VBoolean True)"
| "Array_every f (x # xs) =
     (case f x of
        Inl e \<Rightarrow> Inl e
      | Inr r \<Rightarrow> if ToBoolean r then Array_every f xs else Inr (VBoolean False))"

fun Array_some :: "('a \<Rightarrow> exn + jsval) \<Rightarrow> 'a list \<Rightarrow> exn + jsval" where
  "Array_some f [] = Inr (VBoolean False)"
| "Array_some f (x # xs) =
     (case f x of
        Inl e \<Rightarrow> Inl e
      | Inr r \<Rightarrow> if ToBoolean r then Inr (VBoolean True) else Array_some f xs)"

definition compose :: "callable list \<Rightarrow> callable" where
  "compose checks =
     Arrow [] (\<lambda>item. if isMissing item then Inr (VBoolean False)
                      else Array_every (\<lambda>check. Call check item) checks)"

definition or_js :: "callable list \<Rightarrow> callable" where
  "or_js checks =
     Arrow [] (\<lambda>item. if isMissing item then Inr (VBoolean False)
                      else Array_some (\<lambda>check. Call check item) checks)"

definition and_js :: "callable list \<Rightarrow> callable" where
  "and_js = compose"

subsection \<open>The numeric range\<close>

text \<open>The comparisons \<^verbatim>\<open><\<close> and \<^verbatim>\<open><=\<close> of two numbers: false when either is NaN.\<close>

fun num_lt :: "number \<Rightarrow> number \<Rightarrow> bool" where
  "num_lt NaN b = False"
| "num_lt a NaN = False"
| "num_lt a NegInf = False"
| "num_lt NegInf b = True"
| "num_lt PosInf b = False"
| "num_lt (Fin x) PosInf = True"
| "num_lt (Fin x) (Fin y) = (x < y)"

definition num_le :: "number \<Rightarrow> number \<Rightarrow> bool" where
  "num_le a b = (a \<noteq> NaN \<and> b \<noteq> NaN \<and> \<not> num_lt b a)"

text \<open>
  A comparison with a number converts the other operand to a number. The conversion of a
  string, and of an object through its primitive value, is the host's: the parameter
  \<open>host\<close>.
\<close>

fun ToNumber :: "(jsval \<Rightarrow> number) \<Rightarrow> jsval \<Rightarrow> number" where
  "ToNumber host VUndefined = NaN"
| "ToNumber host VNull = Fin 0"
| "ToNumber host (VBoolean b) = Fin (if b then 1 else 0)"
| "ToNumber host (VNumber n) = n"
| "ToNumber host v = host v"

text \<open>\<^verbatim>\<open>min <= item && item < max\<close>.\<close>

definition numberBetween :: "(jsval \<Rightarrow> number) \<Rightarrow> number \<Rightarrow> number \<Rightarrow> callable" where
  "numberBetween host minv maxv =
     Arrow [] (\<lambda>item. if \<not> num_le minv (ToNumber host item) then Inr (VBoolean False)
                      else Inr (VBoolean (num_lt (ToNumber host item) maxv)))"

subsection \<open>The builder of \<^verbatim>\<open>src/index.ts\<close>\<close>

text \<open>
  The function \<^verbatim>\<open>validate\<close> inside \<^verbatim>\<open>Validator\<close>: the traversal of \<^verbatim>\<open>ValidatorMap\<close>,
  written with \<^verbatim>\<open>keys.every\<close>. (The builder then copies the map onto the function with
  \<^verbatim>\<open>Object.assign\<close>, which throws on a key that names a read-only property of a function;
  only the function it returns otherwise is described here.)
\<close>

definition Validator_validate :: "prototype_chain \<Rightarrow> fieldmap \<Rightarrow> jsval \<Rightarrow> exn + jsval" where
  "Validator_validate inherited validators item =
     (if isMissing item then Inr (VBoolean False)
      else
        let keys = Object_keys validators in
        Array_every
          (\<lambda>key. let validate = Object_Get validators key in
                 case GetV inherited item key of
                   Inl e \<Rightarrow> Inl e
                 | Inr v \<Rightarrow> (case validate of Func f \<Rightarrow> Call f v | _ \<Rightarrow> Inl TypeError))
          keys)"

section \<open>Notions of the specification\<close>

text \<open>
  A callback is accepted at an element when it returns a truthy value there, and declined
  when it returns a value that is not truthy; when it throws it is neither.
\<close>

definition accepts :: "('a \<Rightarrow> exn + jsval) \<Rightarrow> 'a \<Rightarrow> bool" where
  "accepts f x = (case f x of Inr r \<Rightarrow> ToBoolean r | Inl e \<Rightarrow> False)"

definition declines :: "('a \<Rightarrow> exn + jsval) \<Rightarrow> 'a \<Rightarrow> bool" where
  "declines f x = (case f x of Inr r \<Rightarrow> \<not> ToBoolean r | Inl e \<Rightarrow> False)"

text \<open>One round of the loop of \<^verbatim>\<open>validate\<close>: the call of a field's validator.\<close>

definition field_call :: "prototype_chain \<Rightarrow> fieldmap \<Rightarrow> jsval \<Rightarrow> string \<Rightarrow> exn + jsval" where
  "field_call inherited validators item key =
     (case GetV inherited item key of
        Inl e \<Rightarrow> Inl e
      | Inr v \<Rightarrow> (case Object_Get validators key of Func f \<Rightarrow> Call f v | _ \<Rightarrow> Inl TypeError))"

text \<open>
  A field passes when its validator, called on the property read off the item, returns a
  truthy value; it is rejected when the validator returns a value that is not truthy.
\<close>

definition field_passes :: "prototype_chain \<Rightarrow> fieldmap \<Rightarrow> jsval \<Rightarrow> string \<Rightarrow> bool" where
  "field_passes inherited validators item key =
     (case (map_of validators key, GetV inherited item key) of
        (Some f, Inr v) \<Rightarrow> passes f v
      | _ \<Rightarrow> False)"

definition field_rejected :: "prototype_chain \<Rightarrow> fieldmap \<Rightarrow> jsval \<Rightarrow> string \<Rightarrow> bool" where
  "field_rejected inherited validators item key =
     (case (map_of validators key, GetV inherited item key) of
        (Some f, Inr v) \<Rightarrow> rejects f v
      | _ \<Rightarrow> False)"

text \<open>
  A descriptor is written as an object literal: at every level each key occurs once, and
  none is \<^verbatim>\<open>__proto__\<close>, which in a literal, as in the assignment \<^verbatim>\<open>map[key] = test\<close>,
  names the prototype and not a property.
\<close>

fun wf_tree :: "(string \<times> descriptor) list \<Rightarrow> bool"
  and wf_descriptor :: "descriptor \<Rightarrow> bool" where
  "wf_tree [] = True"
| "wf_tree ((key, d) # rest) =
     (key \<noteq> ''__proto__'' \<and> key \<notin> set (Object_keys rest) \<and> wf_descriptor d \<and> wf_tree rest)"
| "wf_descriptor (Leaf f) = True"
| "wf_descriptor (Nested sub) = wf_tree sub"

text \<open>
  The manual construction: the record validator builder applied by hand to each nested
  descriptor, a callable value used as it is.
\<close>

fun manual_map :: "prototype_chain \<Rightarrow> (string \<times> descriptor) list \<Rightarrow> fieldmap"
  and manual_field :: "prototype_chain \<Rightarrow> descriptor \<Rightarrow> callable" where
  "manual_map inherited [] = []"
| "manual_map inherited ((key, d) # rest) =
     (key, manual_field inherited d) # manual_map inherited rest"
| "manual_field inherited (Leaf f) = f"
| "manual_field inherited (Nested sub) = ValidatorMap inherited (manual_map inherited sub)"

definition manual_tree :: "prototype_chain \<Rightarrow> (string \<times> descriptor) list \<Rightarrow> callable" where
  "manual_tree inherited tree = ValidatorMap inherited (manual_map inherited tree)"

text \<open>The descriptor \<^verbatim>\<open>{name: {given: isString, family: isString}, age: isValidNumber}\<close>.\<close>

definition person :: "(string \<times> descriptor) list" where
  "person =
     [(''name'', Nested [(''given'', Leaf isString), (''family'', Leaf isString)]),
      (''age'', Leaf isValidNumber)]"

section \<open>Missing-value policies\<close>

text \<open>
  Claim C6. For every base check: \<open>optional check\<close> returns true on undefined, false on null
  and the result of the check on any other input; \<open>nullable check\<close> returns false on
  undefined, true on null and the result of the check on any other input; \<open>erratic check\<close>
  returns true on undefined and on null and the result of the check on any other input.
\<close>

theorem missing_value_policies:
  "Call (optional check) VUndefined = Inr (VBoolean True)
   \<and> Call (optional check) VNull = Inr (VBoolean False)
   \<and> (\<not> isMissing item \<longrightarrow> Call (optional check) item = Call check item)
   \<and> Call (nullable check) VUndefined = Inr (VBoolean False)
   \<and> Call (nullable check) VNull = Inr (VBoolean True)
   \<and> (\<not> isMissing item \<longrightarrow> Call (nullable check) item = Call check item)
   \<and> Call (erratic check) VUndefined = Inr (VBoolean True)
   \<and> Call (erratic check) VNull = Inr (VBoolean True)
   \<and> (\<not> isMissing item \<longrightarrow> Call (erratic check) item = Call check item)"
  by (simp add: optional_def nullable_def erratic_def isNull_def isUndefined_def isMissing_def)

theorem missing_value_policies_witness:
  "\<not> isMissing (VString ''x'')
   \<and> Call isString (VString ''x'') = Inr (VBoolean True)
   \<and> Call (optional isString) (VString ''x'') = Inr (VBoolean True)
   \<and> Call (nullable isString) (VString ''x'') = Inr (VBoolean True)
   \<and> Call (erratic isString) (VString ''x'') = Inr (VBoolean True)
   \<and> Call (optional isString) VUndefined = Inr (VBoolean True)
   \<and> Call (optional isString) VNull = Inr (VBoolean False)
   \<and> Call (nullable isString) VUndefined = Inr (VBoolean False)
   \<and> Call (nullable isString) VNull = Inr (VBoolean True)
   \<and> Call (erratic isString) VUndefined = Inr (VBoolean True)
   \<and> Call (erratic isString) VNull = Inr (VBoolean True)"
  using missing_value_policies [of isString "VString ''x''"]
  by (simp add: isMissing_def isString_def isTypeof_def)

text \<open>
  Claim C10. For every base check and every input, \<open>erratic check\<close> returns true exactly
  when \<open>optional check\<close> returns true or \<open>nullable check\<close> returns true: the erratic
  policy is the pointwise disjunction of the other two. The same holds of the results read
  as truth values.
\<close>

theorem erratic_optional_or_nullable:
  "(Call (erratic check) x = Inr (VBoolean True))
     = (Call (optional check) x = Inr (VBoolean True) \<or> Call (nullable check) x = Inr (VBoolean True))
   \<and> passes (erratic check) x = (passes (optional check) x \<or> passes (nullable check) x)"
  by (simp add: passes_def optional_def nullable_def erratic_def isNull_def isUndefined_def
      isMissing_def)

section \<open>The numeric range\<close>

text \<open>
  Claim C8. For all numbers \<open>minv\<close>, \<open>maxv\<close> and every number \<open>x\<close>, the predicate
  \<open>numberBetween minv maxv\<close> returns true exactly when \<open>minv \<le> x\<close> and \<open>x < maxv\<close>, the
  half-open interval: the upper bound itself is rejected, and
  \<^verbatim>\<open>numberBetween(1989, 2003)\<close> returns true on 1989 and on 2002 and false on 2003.
\<close>

theorem numberBetween_half_open:
  "Call (numberBetween host minv maxv) (VNumber x) = Inr (VBoolean (num_le minv x \<and> num_lt x maxv))
   \<and> Call (numberBetween host (Fin a) (Fin b)) (VNumber (Fin y)) = Inr (VBoolean (a \<le> y \<and> y < b))
   \<and> Call (numberBetween host (Fin a) (Fin b)) (VNumber (Fin b)) = Inr (VBoolean False)
   \<and> Call (numberBetween host (Fin 1989) (Fin 2003)) (VNumber (Fin 1989)) = Inr (VBoolean True)
   \<and> Call (numberBetween host (Fin 1989) (Fin 2003)) (VNumber (Fin 2002)) = Inr (VBoolean True)
   \<and> Call (numberBetween host (Fin 1989) (Fin 2003)) (VNumber (Fin 2003)) = Inr (VBoolean False)"
  by (auto simp add: numberBetween_def num_le_def)

text \<open>
  Claim C9. The predicate of \<open>numberBetween\<close> does not reject a missing input, unlike
  \<open>test\<close>, \<open>and\<close> and \<open>or\<close>: on null the comparisons are made with null converted to
  the number zero, so for every \<open>minv \<le> 0\<close> and \<open>maxv > 0\<close> the predicate returns true on
  null.
\<close>

theorem numberBetween_null:
  "(num_le minv (Fin 0) \<and> num_lt (Fin 0) maxv \<longrightarrow>
      Call (numberBetween host minv maxv) VNull = Inr (VBoolean True))
   \<and> (a \<le> 0 \<and> 0 < b \<longrightarrow>
      Call (numberBetween host (Fin a) (Fin b)) VNull = Inr (VBoolean True))
   \<and> Call (numberBetween host minv maxv) VNull
      = Call (numberBetween host minv maxv) (VNumber (Fin 0))
   \<and> Call (test check) VNull = Inr (VBoolean False)
   \<and> Call (and_js checks) VNull = Inr (VBoolean False)
   \<and> Call (or_js checks) VNull = Inr (VBoolean False)"
  by (auto simp add: numberBetween_def num_le_def test_def and_js_def compose_def or_js_def
      isMissing_def)

theorem numberBetween_null_witness:
  "num_le (Fin (- 1)) (Fin 0) \<and> num_lt (Fin 0) (Fin 1) \<and> (- 1 :: real) \<le> 0 \<and> (0 :: real) < 1
   \<and> Call (numberBetween (\<lambda>v. NaN) (Fin (- 1)) (Fin 1)) VNull = Inr (VBoolean True)"
  using numberBetween_null [of "Fin (- 1)" "Fin 1" "\<lambda>v. NaN" "- 1" 1]
  by (simp add: num_le_def)

section \<open>Traversals\<close>

lemma Array_every_True:
  "(Array_every f xs = Inr (VBoolean True)) = (\<forall>x\<in>set xs. accepts f x)"
  by (induction xs) (auto simp: accepts_def split: sum.splits)

lemma Array_every_first:
  "\<forall>y\<in>set pre. accepts f y \<Longrightarrow> declines f x \<Longrightarrow>
     Array_every f (pre @ x # post) = Inr (VBoolean False)"
  by (induction pre) (auto simp: accepts_def declines_def split: sum.splits)

lemma Array_every_returns:
  "\<forall>x\<in>set xs. accepts f x \<or> declines f x \<Longrightarrow>
     Array_every f xs = Inr (VBoolean (\<forall>x\<in>set xs. accepts f x))"
  by (induction xs) (auto simp: accepts_def declines_def split: sum.splits)

lemma Array_some_True:
  "Array_some f xs = Inr (VBoolean True) \<Longrightarrow> \<exists>x\<in>set xs. accepts f x"
  by (induction xs) (auto simp: accepts_def split: sum.splits if_splits)

lemma Array_some_returns:
  "\<forall>x\<in>set xs. accepts f x \<or> declines f x \<Longrightarrow>
     Array_some f xs = Inr (VBoolean (\<exists>x\<in>set xs. accepts f x))"
  by (induction xs) (auto simp: accepts_def declines_def split: sum.splits)

lemma accepts_Call: "accepts (\<lambda>check. Call check item) c = passes c item"
  by (simp add: accepts_def passes_def)

lemma declines_Call: "declines (\<lambda>check. Call check item) c = rejects c item"
  by (simp add: declines_def rejects_def)

section \<open>Composition\<close>

text \<open>
  Claim C7. For every list of checks and every input: \<open>and\<close> returns false on a missing
  input and otherwise returns true exactly when every check passes, so that with no check
  it returns true on every input that is not missing; \<open>or\<close> returns false on a missing
  input and otherwise returns true exactly when at least one check passes, so that with no
  check it returns false on every input. (A check that throws neither passes nor is
  rejected; what it throws is thrown by the composition when the traversal reaches it.)
\<close>

theorem and_or_composition:
  "(isMissing item \<longrightarrow>
      Call (and_js checks) item = Inr (VBoolean False)
      \<and> Call (or_js checks) item = Inr (VBoolean False))
   \<and> (\<not> isMissing item \<longrightarrow>
      (Call (and_js checks) item = Inr (VBoolean True)) = (\<forall>c\<in>set checks. passes c item))
   \<and> (\<not> isMissing item \<and> (\<forall>c\<in>set checks. passes c item \<or> rejects c item) \<longrightarrow>
      Call (and_js checks) item = Inr (VBoolean (\<forall>c\<in>set checks. passes c item))
      \<and> Call (or_js checks) item = Inr (VBoolean (\<exists>c\<in>set checks. passes c item)))
   \<and> (Call (or_js checks) item = Inr (VBoolean True) \<longrightarrow>
      \<not> isMissing item \<and> (\<exists>c\<in>set checks. passes c item))
   \<and> (\<not> isMissing item \<longrightarrow> Call (and_js []) item = Inr (VBoolean True))
   \<and> Call (or_js []) item = Inr (VBoolean False)"
proof -
  have a: "Call (and_js cs) item = Array_every (\<lambda>check. Call check item) cs"
    if "\<not> isMissing item" for cs
    using that by (simp add: and_js_def compose_def)
  have b: "Call (or_js cs) item = Array_some (\<lambda>check. Call check item) cs"
    if "\<not> isMissing item" for cs
    using that by (simp add: or_js_def)
  have m: "Call (and_js checks) item = Inr (VBoolean False)
      \<and> Call (or_js checks) item = Inr (VBoolean False)" if "isMissing item"
    using that by (simp add: and_js_def compose_def or_js_def)
  have 1: "(Call (and_js checks) item = Inr (VBoolean True)) = (\<forall>c\<in>set checks. passes c item)"
    if "\<not> isMissing item"
    using that by (simp add: a Array_every_True accepts_Call)
  have 2: "Call (and_js checks) item = Inr (VBoolean (\<forall>c\<in>set checks. passes c item))"
    if "\<not> isMissing item" and "\<forall>c\<in>set checks. passes c item \<or> rejects c item"
    using that Array_every_returns [of checks "\<lambda>check. Call check item"]
    by (simp add: a accepts_Call declines_Call)
  have 3: "Call (or_js checks) item = Inr (VBoolean (\<exists>c\<in>set checks. passes c item))"
    if "\<not> isMissing item" and "\<forall>c\<in>set checks. passes c item \<or> rejects c item"
    using that Array_some_returns [of checks "\<lambda>check. Call check item"]
    by (simp add: b accepts_Call declines_Call)
  have 4: "\<not> isMissing item \<and> (\<exists>c\<in>set checks. passes c item)"
    if "Call (or_js checks) item = Inr (VBoolean True)"
    using that Array_some_True [of "\<lambda>check. Call check item" checks] m b [of checks]
    by (cases "isMissing item") (auto simp: accepts_Call)
  have 5: "Call (and_js []) item = Inr (VBoolean True)" if "\<not> isMissing item"
    using that by (simp add: a)
  have 6: "Call (or_js []) item = Inr (VBoolean False)"
    by (simp add: or_js_def)
  from m 1 2 3 4 5 6 show ?thesis by blast
qed

theorem and_or_composition_witness:
  "\<not> isMissing (VString ''x'')
   \<and> passes isString (VString ''x'') \<and> rejects isNumber (VString ''x'')
   \<and> Call (and_js [isString, isNumber]) (VString ''x'') = Inr (VBoolean False)
   \<and> Call (or_js [isString, isNumber]) (VString ''x'') = Inr (VBoolean True)
   \<and> Call (and_js []) (VString ''x'') = Inr (VBoolean True)
   \<and> Call (or_js []) (VString ''x'') = Inr (VBoolean False)
   \<and> isMissing VNull
   \<and> Call (and_js [isString]) VNull = Inr (VBoolean False)
   \<and> Call (or_js [isString]) VNull = Inr (VBoolean False)"
  using and_or_composition [of "VString ''x''" "[isString, isNumber]"]
    and_or_composition [of VNull "[isString]"]
  by (simp add: isMissing_def passes_def rejects_def isString_def isNumber_def isTypeof_def)

section \<open>The record validator\<close>

lemma validate_loop_every:
  "validate_loop inherited validators keys item = Array_every (field_call inherited validators item) keys"
  by (induction keys) (auto simp: field_call_def Let_def split: sum.splits property.splits)

lemma Call_ValidatorMap:
  "Call (ValidatorMap inherited validators) item =
     (if isMissing item then Inr (VBoolean False)
      else Array_every (field_call inherited validators item) (Object_keys validators))"
  by (simp add: ValidatorMap_def ValidatorMap_validate_def validate_loop_every)

lemma Validator_validate_eq:
  "Validator_validate inherited validators item = Call (ValidatorMap inherited validators) item"
proof -
  have "field_call inherited validators item =
        (\<lambda>key. let validate = Object_Get validators key in
                 case GetV inherited item key of
                   Inl e \<Rightarrow> Inl e
                 | Inr v \<Rightarrow> (case validate of Func f \<Rightarrow> Call f v | _ \<Rightarrow> Inl TypeError))"
    by (rule ext) (simp add: field_call_def)
  then show ?thesis
    by (simp add: Validator_validate_def Call_ValidatorMap)
qed

text \<open>What is read off the map at one of its keys is the validator stored there.\<close>

lemma own_Get:
  "key \<in> set (Object_keys validators) \<Longrightarrow>
     \<exists>f. map_of validators key = Some f \<and> Object_Get validators key = Func f"
  by (cases "map_of validators key") (auto simp: Object_keys_def Object_Get_def map_of_eq_None_iff)

lemma accepts_field:
  "key \<in> set (Object_keys validators) \<Longrightarrow>
     accepts (field_call inherited validators item) key = field_passes inherited validators item key"
  using own_Get [of key validators]
  by (auto simp: accepts_def field_call_def field_passes_def passes_def split: sum.splits)

lemma declines_field:
  "key \<in> set (Object_keys validators) \<Longrightarrow>
     declines (field_call inherited validators item) key = field_rejected inherited validators item key"
  using own_Get [of key validators]
  by (auto simp: declines_def field_call_def field_rejected_def rejects_def split: sum.splits)

text \<open>
  Claim C1. For every field map and every input, the record validator built from the map
  returns false when the input is null or undefined. Otherwise it calls, for each key of
  the map in the map's order (the order of \<^verbatim>\<open>Object.keys\<close>), the field's validator on the
  property read off the input: the input's own property, else the one it inherits along
  the prototype chain, whatever the chain of the host is, and undefined when the input has
  no such property at all. It returns false at the first field
  whose validator returns false, whatever the later fields and their validators are, since
  they are not evaluated; and it returns true exactly when the validator of every field
  returns true. The function \<^verbatim>\<open>validate\<close> inside the builder \<^verbatim>\<open>Validator\<close> returns the
  same.
\<close>

theorem record_validator_validation:
  "(isMissing item \<longrightarrow> Call (ValidatorMap inherited validators) item = Inr (VBoolean False))
   \<and> (\<not> isMissing item \<longrightarrow>
        (Call (ValidatorMap inherited validators) item = Inr (VBoolean True))
        = (\<forall>key\<in>set (Object_keys validators). field_passes inherited validators item key))
   \<and> (\<not> isMissing item \<and> Object_keys validators = pre @ key # post
        \<and> (\<forall>k\<in>set pre. field_passes inherited validators item k)
        \<and> field_rejected inherited validators item key \<longrightarrow>
        Call (ValidatorMap inherited validators) item = Inr (VBoolean False))
   \<and> (\<not> isMissing item
        \<and> (\<forall>k\<in>set (Object_keys validators).
              field_passes inherited validators item k \<or> field_rejected inherited validators item k) \<longrightarrow>
        Call (ValidatorMap inherited validators) item
        = Inr (VBoolean (\<forall>k\<in>set (Object_keys validators). field_passes inherited validators item k)))
   \<and> (\<not> isMissing item \<and> own_property item name = Some v \<longrightarrow> GetV inherited item name = Inr v)
   \<and> (\<not> isMissing item \<and> own_property item name = None \<and> inherited item name = Some r \<longrightarrow>
        GetV inherited item name = r)
   \<and> (\<not> isMissing item \<and> own_property item name = None \<and> inherited item name = None \<longrightarrow>
        GetV inherited item name = Inr VUndefined)
   \<and> Validator_validate inherited validators item = Call (ValidatorMap inherited validators) item"
proof -
  let ?keys = "Object_keys validators"
  let ?f = "field_call inherited validators item"
  have acc: "(\<forall>k\<in>set ?keys. accepts ?f k) = (\<forall>k\<in>set ?keys. field_passes inherited validators item k)"
    by (simp add: accepts_field)
  have 1: "Call (ValidatorMap inherited validators) item = Inr (VBoolean False)" if "isMissing item"
    using that by (simp add: Call_ValidatorMap)
  have 2: "(Call (ValidatorMap inherited validators) item = Inr (VBoolean True))
       = (\<forall>key\<in>set ?keys. field_passes inherited validators item key)" if "\<not> isMissing item"
    using that by (simp add: Call_ValidatorMap Array_every_True acc)
  have 3: "Call (ValidatorMap inherited validators) item = Inr (VBoolean False)"
    if m: "\<not> isMissing item" and k: "?keys = pre @ key # post"
      and p: "\<forall>k\<in>set pre. field_passes inherited validators item k"
      and r: "field_rejected inherited validators item key"
  proof -
    have "\<forall>k\<in>set pre. accepts ?f k"
      using p k by (simp add: accepts_field)
    moreover have "declines ?f key"
      using r k by (simp add: declines_field)
    ultimately have "Array_every ?f (pre @ key # post) = Inr (VBoolean False)"
      by (rule Array_every_first)
    with m k show ?thesis by (simp add: Call_ValidatorMap)
  qed
  have 4: "Call (ValidatorMap inherited validators) item
       = Inr (VBoolean (\<forall>k\<in>set ?keys. field_passes inherited validators item k))"
    if m: "\<not> isMissing item"
      and t: "\<forall>k\<in>set ?keys. field_passes inherited validators item k \<or> field_rejected inherited validators item k"
  proof -
    have "\<forall>k\<in>set ?keys. accepts ?f k \<or> declines ?f k"
      using t by (simp add: accepts_field declines_field)
    then have "Array_every ?f ?keys = Inr (VBoolean (\<forall>k\<in>set ?keys. accepts ?f k))"
      by (rule Array_every_returns)
    with m show ?thesis by (simp add: Call_ValidatorMap acc)
  qed
  have 5: "GetV inherited item name = Inr v"
    if "\<not> isMissing item" and "own_property item name = Some v"
    using that by (simp add: GetV_def isMissing_def)
  have 6: "GetV inherited item name = r"
    if "\<not> isMissing item" and "own_property item name = None" and "inherited item name = Some r"
    using that by (simp add: GetV_def isMissing_def)
  have 7: "GetV inherited item name = Inr VUndefined"
    if "\<not> isMissing item" and "own_property item name = None" and "inherited item name = None"
    using that by (simp add: GetV_def isMissing_def)
  from 1 2 3 4 5 6 7 Validator_validate_eq show ?thesis by blast
qed

text \<open>
  A member inherited by the input is read as the code reads it: a field named
  \<^verbatim>\<open>constructor\<close> is validated against the function every object inherits, so that
  \<^verbatim>\<open>ValidatorMap({constructor: optional(isString)})({})\<close> is false, in every host where
  the member is a function; likewise \<^verbatim>\<open>{toString: optional(isString)}\<close> on a number and
  \<^verbatim>\<open>{values: optional(isArray)}\<close> on an array.
\<close>

lemma inherited_member_is_read:
  assumes "\<not> isMissing item" and "own_property item key = None"
    and "inherited item key = Some (Inr (VFunction ps))"
  shows "GetV inherited item key = Inr (VFunction ps)"
    and "Call (ValidatorMap inherited [(key, optional isString)]) item = Inr (VBoolean False)"
    and "Call (ValidatorMap inherited [(key, optional isArray)]) item = Inr (VBoolean False)"
proof -
  show g: "GetV inherited item key = Inr (VFunction ps)"
    using assms by (simp add: GetV_def isMissing_def)
  show "Call (ValidatorMap inherited [(key, optional isString)]) item = Inr (VBoolean False)"
    using assms(1) g
    by (simp add: Call_ValidatorMap Object_keys_def field_call_def Object_Get_def optional_def
        isNull_def isUndefined_def isString_def isTypeof_def)
  show "Call (ValidatorMap inherited [(key, optional isArray)]) item = Inr (VBoolean False)"
    using assms(1) g
    by (simp add: Call_ValidatorMap Object_keys_def field_call_def Object_Get_def optional_def
        isNull_def isUndefined_def isArray_def)
qed

text \<open>
  In a host where an object inherits \<^verbatim>\<open>constructor\<close>, the function \<^verbatim>\<open>Object\<close>: the map
  \<^verbatim>\<open>{a: isString, b: isNumber}\<close> on \<^verbatim>\<open>{a: "x", b: 1}\<close>, on \<^verbatim>\<open>{a: "x"}\<close>, on null and on
  undefined; a map whose second validator throws whenever it is called, on an input whose
  first field is rejected; and the map \<^verbatim>\<open>{constructor: optional(isString)}\<close> on \<^verbatim>\<open>{}\<close>.
\<close>

theorem record_validator_validation_witness:
  "\<not> isMissing (VObject [(''a'', VString ''x''), (''b'', VNumber (Fin 1))] None)
   \<and> field_passes (\<lambda>item key. case item of
              VObject ps it \<Rightarrow>
                if key = ''constructor''
                then Some (Inr (VFunction [(''name'', VString ''Object''), (''length'', VNumber (Fin 1))]))
                else None
            | _ \<Rightarrow> None) [(''a'', isString), (''b'', isNumber)]
         (VObject [(''a'', VString ''x''), (''b'', VNumber (Fin 1))] None) ''a''
   \<and> field_passes (\<lambda>item key. case item of
              VObject ps it \<Rightarrow>
                if key = ''constructor''
                then Some (Inr (VFunction [(''name'', VString ''Object''), (''length'', VNumber (Fin 1))]))
                else None
            | _ \<Rightarrow> None) [(''a'', isString), (''b'', isNumber)]
         (VObject [(''a'', VString ''x''), (''b'', VNumber (Fin 1))] None) ''b''
   \<and> Call (ValidatorMap (\<lambda>item key. case item of
              VObject ps it \<Rightarrow>
                if key = ''constructor''
                then Some (Inr (VFunction [(''name'', VString ''Object''), (''length'', VNumber (Fin 1))]))
                else None
            | _ \<Rightarrow> None) [(''a'', isString), (''b'', isNumber)])
         (VObject [(''a'', VString ''x''), (''b'', VNumber (Fin 1))] None) = Inr (VBoolean True)
   \<and> field_rejected (\<lambda>item key. case item of
              VObject ps it \<Rightarrow>
                if key = ''constructor''
                then Some (Inr (VFunction [(''name'', VString ''Object''), (''length'', VNumber (Fin 1))]))
                else None
            | _ \<Rightarrow> None) [(''a'', isString), (''b'', isNumber)]
         (VObject [(''a'', VString ''x'')] None) ''b''
   \<and> Call (ValidatorMap (\<lambda>item key. case item of
              VObject ps it \<Rightarrow>
                if key = ''constructor''
                then Some (Inr (VFunction [(''name'', VString ''Object''), (''length'', VNumber (Fin 1))]))
                else None
            | _ \<Rightarrow> None) [(''a'', isString), (''b'', isNumber)])
         (VObject [(''a'', VString ''x'')] None) = Inr (VBoolean False)
   \<and> isMissing VNull \<and> isMissing VUndefined
   \<and> Call (ValidatorMap (\<lambda>item key. case item of
              VObject ps it \<Rightarrow>
                if key = ''constructor''
                then Some (Inr (VFunction [(''name'', VString ''Object''), (''length'', VNumber (Fin 1))]))
                else None
            | _ \<Rightarrow> None) [(''a'', isString), (''b'', isNumber)]) VNull = Inr (VBoolean False)
   \<and> Call (ValidatorMap (\<lambda>item key. case item of
              VObject ps it \<Rightarrow>
                if key = ''constructor''
                then Some (Inr (VFunction [(''name'', VString ''Object''), (''length'', VNumber (Fin 1))]))
                else None
            | _ \<Rightarrow> None) [(''a'', isString), (''b'', isNumber)]) VUndefined
       = Inr (VBoolean False)
   \<and> Object_keys [(''a'', isString), (''b'', Arrow [] (\<lambda>v. Inl (Thrown v)))] = [] @ ''a'' # [''b'']
   \<and> field_rejected (\<lambda>item key. case item of
              VObject ps it \<Rightarrow>
                if key = ''constructor''
                then Some (Inr (VFunction [(''name'', VString ''Object''), (''length'', VNumber (Fin 1))]))
                else None
            | _ \<Rightarrow> None) [(''a'', isString), (''b'', Arrow [] (\<lambda>v. Inl (Thrown v)))]
         (VObject [(''a'', VNumber (Fin 1)), (''b'', VNumber (Fin 2))] None) ''a''
   \<and> Call (ValidatorMap (\<lambda>item key. case item of
              VObject ps it \<Rightarrow>
                if key = ''constructor''
                then Some (Inr (VFunction [(''name'', VString ''Object''), (''length'', VNumber (Fin 1))]))
                else None
            | _ \<Rightarrow> None) [(''a'', isString), (''b'', Arrow [] (\<lambda>v. Inl (Thrown v)))])
         (VObject [(''a'', VNumber (Fin 1)), (''b'', VNumber (Fin 2))] None) = Inr (VBoolean False)
   \<and> own_property (VObject [] None) ''constructor'' = None
   \<and> GetV (\<lambda>item key. case item of
              VObject ps it \<Rightarrow>
                if key = ''constructor''
                then Some (Inr (VFunction [(''name'', VString ''Object''), (''length'', VNumber (Fin 1))]))
                else None
            | _ \<Rightarrow> None) (VObject [] None) ''constructor''
       = Inr (VFunction [(''name'', VString ''Object''), (''length'', VNumber (Fin 1))])
   \<and> field_rejected (\<lambda>item key. case item of
              VObject ps it \<Rightarrow>
                if key = ''constructor''
                then Some (Inr (VFunction [(''name'', VString ''Object''), (''length'', VNumber (Fin 1))]))
                else None
            | _ \<Rightarrow> None) [(''constructor'', optional isString)] (VObject [] None) ''constructor''
   \<and> Call (ValidatorMap (\<lambda>item key. case item of
              VObject ps it \<Rightarrow>
                if key = ''constructor''
                then Some (Inr (VFunction [(''name'', VString ''Object''), (''length'', VNumber (Fin 1))]))
                else None
            | _ \<Rightarrow> None) [(''constructor'', optional isString)]) (VObject [] None)
       = Inr (VBoolean False)"
  using
    record_validator_validation [where inherited = "(\<lambda>item key. case item of
              VObject ps it \<Rightarrow>
                if key = ''constructor''
                then Some (Inr (VFunction [(''name'', VString ''Object''), (''length'', VNumber (Fin 1))]))
                else None
            | _ \<Rightarrow> None)"
      and item = "VObject [(''a'', VString ''x''), (''b'', VNumber (Fin 1))] None"
      and validators = "[(''a'', isString), (''b'', isNumber)]"]
    record_validator_validation [where inherited = "(\<lambda>item key. case item of
              VObject ps it \<Rightarrow>
                if key = ''constructor''
                then Some (Inr (VFunction [(''name'', VString ''Object''), (''length'', VNumber (Fin 1))]))
                else None
            | _ \<Rightarrow> None)"
      and item = "VObject [(''a'', VString ''x'')] None"
      and validators = "[(''a'', isString), (''b'', isNumber)]"
      and pre = "[''a'']" and key = "''b''" and post = "[]"]
    record_validator_validation [where inherited = "(\<lambda>item key. case item of
              VObject ps it \<Rightarrow>
                if key = ''constructor''
                then Some (Inr (VFunction [(''name'', VString ''Object''), (''length'', VNumber (Fin 1))]))
                else None
            | _ \<Rightarrow> None)"
      and item = VNull and validators = "[(''a'', isString), (''b'', isNumber)]"]
    record_validator_validation [where inherited = "(\<lambda>item key. case item of
              VObject ps it \<Rightarrow>
                if key = ''constructor''
                then Some (Inr (VFunction [(''name'', VString ''Object''), (''length'', VNumber (Fin 1))]))
                else None
            | _ \<Rightarrow> None)"
      and item = VUndefined and validators = "[(''a'', isString), (''b'', isNumber)]"]
    record_validator_validation [where inherited = "(\<lambda>item key. case item of
              VObject ps it \<Rightarrow>
                if key = ''constructor''
                then Some (Inr (VFunction [(''name'', VString ''Object''), (''length'', VNumber (Fin 1))]))
                else None
            | _ \<Rightarrow> None)"
      and item = "VObject [(''a'', VNumber (Fin 1)), (''b'', VNumber (Fin 2))] None"
      and validators = "[(''a'', isString), (''b'', Arrow [] (\<lambda>v. Inl (Thrown v)))]"
      and pre = "[]" and key = "''a''" and post = "[''b'']"]
    record_validator_validation [where inherited = "(\<lambda>item key. case item of
              VObject ps it \<Rightarrow>
                if key = ''constructor''
                then Some (Inr (VFunction [(''name'', VString ''Object''), (''length'', VNumber (Fin 1))]))
                else None
            | _ \<Rightarrow> None)"
      and item = "VObject [] None"
      and validators = "[(''constructor'', optional isString)]"
      and pre = "[]" and key = "''constructor''" and post = "[]"
      and name = "''constructor''"
      and r = "Inr (VFunction [(''name'', VString ''Object''), (''length'', VNumber (Fin 1))])"]
  by (simp add: isMissing_def Object_keys_def field_passes_def field_rejected_def passes_def
      rejects_def isString_def isNumber_def isTypeof_def optional_def isNull_def isUndefined_def
      GetV_def)

section \<open>Field lookup on the record validator\<close>

text \<open>
  A lookup on the record validator is the property read on the field map itself: the
  function under the proxy is never consulted.
\<close>

lemma Get_ValidatorMap: "Get (ValidatorMap inherited validators) key = Inr (Object_Get validators key)"
proof (cases "map_of validators key")
  case None
  then have "key \<notin> set (Object_keys validators)"
    by (simp add: Object_keys_def map_of_eq_None_iff)
  with None show ?thesis
    by (simp add: ValidatorMap_def ValidatorMap_get_def Object_HasProperty_def Object_Get_def)
next
  case (Some f)
  then have "key \<in> set (Object_keys validators)"
    by (auto simp: Object_keys_def dest: map_of_SomeD intro: rev_image_eqI)
  then show ?thesis
    by (simp add: ValidatorMap_def ValidatorMap_get_def Object_HasProperty_def)
qed

lemma lookup_declared:
  "map_of validators key = Some f \<Longrightarrow> Get (ValidatorMap inherited validators) key = Inr (Func f)"
  by (simp add: Get_ValidatorMap Object_Get_def)

lemma lookup_not_inherited:
  "key \<notin> set (Object_keys validators) \<Longrightarrow> key \<notin> set Object_prototype_keys \<Longrightarrow>
     Get (ValidatorMap inherited validators) key = Inr (Data VUndefined)"
  by (simp add: Get_ValidatorMap Object_Get_def Object_keys_def map_of_eq_None_iff [THEN iffD2])

lemma lookup_inherited:
  "key \<notin> set (Object_keys validators) \<Longrightarrow> key \<in> set Object_prototype_keys \<Longrightarrow>
     Get (ValidatorMap inherited validators) key = Inr (Builtin (''Object.prototype.'' @ key))"
  by (simp add: Get_ValidatorMap Object_Get_def Object_keys_def map_of_eq_None_iff [THEN iffD2])

text \<open>
  Claim C2 states that a lookup on the record validator mirrors the field map: a declared
  key yields the validator stored under it, and any other name yields undefined, never a
  property intrinsic to the host. The code at \<^verbatim>\<open>ValidatorMap({a: isString})\<close>: the
  declared key \<^verbatim>\<open>a\<close> yields \<^verbatim>\<open>isString\<close> and the name \<^verbatim>\<open>name\<close> of the function
  yields undefined, but \<^verbatim>\<open>toString\<close>, which is no key of the map, yields the method the
  map object inherits from \<^verbatim>\<open>Object.prototype\<close>, because \<^verbatim>\<open>key in validators\<close> holds
  of inherited properties too.
\<close>

theorem record_lookup_inherited_name:
  "''toString'' \<notin> set (Object_keys [(''a'', isString)])
   \<and> Get (ValidatorMap inherited [(''a'', isString)]) ''toString''
       = Inr (Builtin ''Object.prototype.toString'')
   \<and> Get (ValidatorMap inherited [(''a'', isString)]) ''a'' = Inr (Func isString)
   \<and> Get (ValidatorMap inherited [(''a'', isString)]) ''name'' = Inr (Data VUndefined)
   \<and> Get (ValidatorMap inherited [(''a'', isString)]) ''length'' = Inr (Data VUndefined)"
  by (simp add: Get_ValidatorMap Object_Get_def Object_prototype_keys_def Object_keys_def)

section \<open>The iterable lifter\<close>

lemma for_of_every: "for_of check elems = Array_every (Call check) elems"
  by (induction elems) (auto split: sum.splits)

lemma passes_isIterable:
  "passes isIterable item = (Symbol_iterator item \<noteq> None \<and> typeof item \<noteq> ''string'')"
  by (auto simp: passes_def isIterable_def isString_def isTypeof_def split: option.splits)

lemma Call_isIterable: "Call isIterable item = Inr (VBoolean (passes isIterable item))"
  by (auto simp: passes_def isIterable_def isString_def isTypeof_def split: option.splits)

lemma Call_IterableValidator:
  "Call (IterableValidator check) item =
     (if \<not> passes isIterable item then Inr (VBoolean False)
      else case Symbol_iterator item of
             None \<Rightarrow> Inl TypeError
           | Some elems \<Rightarrow> Array_every (Call check) elems)"
  by (simp add: IterableValidator_def IterableValidator_validate_def Call_isIterable for_of_every
      cong: option.case_cong)

text \<open>
  Claim C4. For every element validator and every input, the lifted validator returns false
  when the input does not satisfy the iterable-detection rule: when it has no iterator, as
  a bare number, or is a string. Otherwise it goes through the elements once and in order,
  returns false at the first element the element validator rejects, whatever the later
  elements are, since they are not consumed, and returns true when every element passes; in
  particular it returns true on an empty iterable.
\<close>

theorem iterable_validator_validation:
  "(\<not> passes isIterable item \<longrightarrow> Call (IterableValidator check) item = Inr (VBoolean False))
   \<and> passes isIterable item = (Symbol_iterator item \<noteq> None \<and> typeof item \<noteq> ''string'')
   \<and> Call (IterableValidator check) (VString s) = Inr (VBoolean False)
   \<and> Call (IterableValidator check) (VNumber n) = Inr (VBoolean False)
   \<and> (passes isIterable item \<and> Symbol_iterator item = Some elems \<longrightarrow>
        (Call (IterableValidator check) item = Inr (VBoolean True))
        = (\<forall>x\<in>set elems. passes check x))
   \<and> (passes isIterable item \<and> Symbol_iterator item = Some (pre @ x # post)
        \<and> (\<forall>y\<in>set pre. passes check y) \<and> rejects check x \<longrightarrow>
        Call (IterableValidator check) item = Inr (VBoolean False))
   \<and> (passes isIterable item \<and> Symbol_iterator item = Some [] \<longrightarrow>
        Call (IterableValidator check) item = Inr (VBoolean True))
   \<and> Call (IterableValidator check) (VArray []) = Inr (VBoolean True)"
proof -
  have ac: "accepts (Call check) = passes check"
    by (rule ext) (simp add: accepts_def passes_def)
  have de: "declines (Call check) = rejects check"
    by (rule ext) (simp add: declines_def rejects_def)
  have 1: "Call (IterableValidator check) item = Inr (VBoolean False)"
    if "\<not> passes isIterable item"
    using that by (simp add: Call_IterableValidator)
  have 2: "Call (IterableValidator check) (VString s) = Inr (VBoolean False)"
    by (simp add: Call_IterableValidator passes_isIterable)
  have 3: "Call (IterableValidator check) (VNumber n) = Inr (VBoolean False)"
    by (simp add: Call_IterableValidator passes_isIterable)
  have 4: "(Call (IterableValidator check) item = Inr (VBoolean True))
       = (\<forall>x\<in>set elems. passes check x)"
    if "passes isIterable item" and "Symbol_iterator item = Some elems"
    using that by (simp add: Call_IterableValidator Array_every_True ac)
  have 5: "Call (IterableValidator check) item = Inr (VBoolean False)"
    if "passes isIterable item" and "Symbol_iterator item = Some (pre @ x # post)"
      and "\<forall>y\<in>set pre. passes check y" and "rejects check x"
    using that Array_every_first [of pre "Call check" x post]
    by (simp add: Call_IterableValidator ac de)
  have 6: "Call (IterableValidator check) item = Inr (VBoolean True)"
    if "passes isIterable item" and "Symbol_iterator item = Some []"
    using that by (simp add: Call_IterableValidator)
  have 7: "Call (IterableValidator check) (VArray []) = Inr (VBoolean True)"
    by (simp add: Call_IterableValidator passes_isIterable)
  from 1 2 3 4 5 6 7 passes_isIterable show ?thesis by blast
qed

text \<open>
  The lifter over \<^verbatim>\<open>isString\<close> on \<^verbatim>\<open>["a", "b"]\<close>, on \<^verbatim>\<open>["a", 1]\<close>, on a number and
  on an iterable object without elements; and over a check that throws on null, on
  \<^verbatim>\<open>["a", 1, null]\<close>: the rejected second element ends the traversal.
\<close>

theorem iterable_validator_validation_witness:
  "passes isIterable (VArray [VString ''a'', VString ''b''])
   \<and> Symbol_iterator (VArray [VString ''a'', VString ''b'']) = Some [VString ''a'', VString ''b'']
   \<and> passes isString (VString ''a'') \<and> passes isString (VString ''b'')
   \<and> Call (IterableValidator isString) (VArray [VString ''a'', VString ''b'']) = Inr (VBoolean True)
   \<and> rejects isString (VNumber (Fin 1))
   \<and> Call (IterableValidator isString) (VArray [VString ''a'', VNumber (Fin 1)]) = Inr (VBoolean False)
   \<and> \<not> passes isIterable (VNumber (Fin 5))
   \<and> Call (IterableValidator isString) (VNumber (Fin 5)) = Inr (VBoolean False)
   \<and> passes isIterable (VObject [] (Some []))
   \<and> Call (IterableValidator isString) (VObject [] (Some [])) = Inr (VBoolean True)
   \<and> Call (Arrow [] (\<lambda>v. if v = VNull then Inl (Thrown v) else Call isString v)) VNull
       = Inl (Thrown VNull)
   \<and> Call (IterableValidator (Arrow [] (\<lambda>v. if v = VNull then Inl (Thrown v) else Call isString v)))
         (VArray [VString ''a'', VNumber (Fin 1), VNull]) = Inr (VBoolean False)"
  using
    iterable_validator_validation [where item = "VArray [VString ''a'', VString ''b'']"
      and check = isString and elems = "[VString ''a'', VString ''b'']"]
    iterable_validator_validation [where item = "VArray [VString ''a'', VNumber (Fin 1)]"
      and check = isString and pre = "[VString ''a'']" and x = "VNumber (Fin 1)" and post = "[]"]
    iterable_validator_validation [where item = "VNumber (Fin 5)" and check = isString]
    iterable_validator_validation [where item = "VObject [] (Some [])" and check = isString]
    iterable_validator_validation [where item = "VArray [VString ''a'', VNumber (Fin 1), VNull]"
      and check = "Arrow [] (\<lambda>v. if v = VNull then Inl (Thrown v) else Call isString v)"
      and pre = "[VString ''a'']" and x = "VNumber (Fin 1)" and post = "[VNull]"]
  by (simp add: passes_def rejects_def isString_def isTypeof_def)

section \<open>Field lookup on the lifted validator\<close>

text \<open>
  The trap of the lifted validator asks \<^verbatim>\<open>key in check\<close> first. On a record validator,
  a proxy without a \<^verbatim>\<open>has\<close> trap, the question goes to the function under the proxy,
  which has none of the fields.
\<close>

lemma HasProperty_ValidatorMap:
  "HasProperty (ValidatorMap inherited validators) key = Function_HasProperty key"
  by (simp add: ValidatorMap_def)

lemma Get_IterableValidator:
  "Get (IterableValidator check) key =
     (if HasProperty check key then Get check key else Inr (Data VUndefined))"
  by (simp add: IterableValidator_def IterableValidator_get_def)

lemma lifted_lookup:
  "Get (IterableValidator (ValidatorMap inherited validators)) key =
     (if Function_HasProperty key then Inr (Object_Get validators key) else Inr (Data VUndefined))"
  by (simp add: Get_IterableValidator HasProperty_ValidatorMap Get_ValidatorMap)

text \<open>
  Claim C5 states that a lookup on the lifted validator is forwarded to the field table of
  the element validator: a field declared there yields its validator, any other name
  yields undefined. The code at \<^verbatim>\<open>IterableValidator(ValidatorMap({a: isString}))\<close>: the
  element validator yields \<^verbatim>\<open>isString\<close> for its field \<^verbatim>\<open>a\<close>, and the lifted validator
  yields undefined for it, because \<^verbatim>\<open>"a" in check\<close> is false. A field is forwarded only
  when its name is also a property of a function, as \<^verbatim>\<open>name\<close> is.
\<close>

theorem lifted_lookup_declared_field:
  "Get (ValidatorMap inherited [(''a'', isString)]) ''a'' = Inr (Func isString)
   \<and> HasProperty (ValidatorMap inherited [(''a'', isString)]) ''a'' = False
   \<and> Get (IterableValidator (ValidatorMap inherited [(''a'', isString)])) ''a'' = Inr (Data VUndefined)
   \<and> Get (IterableValidator (ValidatorMap inherited [(''name'', isString)])) ''name'' = Inr (Func isString)"
  by (simp add: lifted_lookup HasProperty_ValidatorMap Get_ValidatorMap Object_Get_def
      Function_HasProperty_def Function_prototype_keys_def Object_prototype_keys_def)

section \<open>The tree compiler\<close>

lemma update_fresh: "key \<notin> set (Object_keys m) \<Longrightarrow> AList.update key v m = m @ [(key, v)]"
  by (induction m) (auto simp: Object_keys_def)

lemma keys_manual_map: "Object_keys (manual_map inherited tree) = Object_keys tree"
  by (induction tree) (auto simp: Object_keys_def)

lemma map_of_manual_map: "map_of (manual_map inherited tree) key = map_option (manual_field inherited) (map_of tree key)"
  by (induction tree) auto

lemma wf_tree_entry: "wf_tree tree \<Longrightarrow> map_of tree key = Some d \<Longrightarrow> wf_descriptor d"
  by (induction tree) (auto split: if_splits)

text \<open>
  The loop appends to the map built so far what the manual construction makes of each
  entry, and so the compiled map is the manual one.
\<close>

lemma build_manual:
  "wf_tree tree \<Longrightarrow> set (Object_keys tree) \<inter> set (Object_keys vmap) = {} \<Longrightarrow>
     buildValidationMap_loop inherited tree vmap = vmap @ manual_map inherited tree"
  "wf_tree tree' \<Longrightarrow> buildValidationMap inherited tree' = manual_map inherited tree'"
proof (induction inherited tree vmap and inherited tree'
    rule: buildValidationMap_loop_buildValidationMap.induct)
  case (1 inherited vmap)
  then show ?case by simp
next
  case (2 inherited key f rest vmap)
  have fresh: "key \<notin> set (Object_keys vmap)"
    using "2.prems" by (auto simp: Object_keys_def)
  have "set (Object_keys rest) \<inter> set (Object_keys (vmap @ [(key, f)])) = {}"
    using "2.prems" by (auto simp: Object_keys_def)
  with 2 fresh show ?case
    by (simp add: update_fresh)
next
  case (3 inherited key sub rest vmap)
  have fresh: "key \<notin> set (Object_keys vmap)"
    using "3.prems" by (auto simp: Object_keys_def)
  have sub: "buildValidationMap inherited sub = manual_map inherited sub"
    using 3 by simp
  have "set (Object_keys rest) \<inter> set (Object_keys (vmap @ [(key, ValidatorMap inherited (manual_map inherited sub))])) = {}"
    using "3.prems" by (auto simp: Object_keys_def)
  with 3 fresh sub show ?case
    by (simp add: update_fresh)
next
  case (4 inherited tree)
  then show ?case by (simp add: Object_keys_def)
qed

text \<open>
  Claim C3. For every descriptor tree, the validator of the tree compiler and the validator
  made by applying the record validator builder by hand to each nested descriptor are the
  same value, and so return the same result on every input and the same result for every
  field lookup. The compiled map has the keys of the descriptor; under a key it holds the
  descriptor's value unchanged when that is callable, and otherwise the builder applied to
  the compiled nested descriptor.
\<close>

theorem tree_compiler_is_manual_nesting:
  assumes "wf_tree tree"
  shows "ValidationTree inherited tree = manual_tree inherited tree
    \<and> Call (ValidationTree inherited tree) item = Call (manual_tree inherited tree) item
    \<and> Get (ValidationTree inherited tree) name = Get (manual_tree inherited tree) name
    \<and> Object_keys (buildValidationMap inherited tree) = Object_keys tree
    \<and> (map_of tree key = Some (Leaf f) \<longrightarrow> map_of (buildValidationMap inherited tree) key = Some f)
    \<and> (map_of tree key = Some (Nested sub) \<longrightarrow>
          map_of (buildValidationMap inherited tree) key = Some (ValidatorMap inherited (buildValidationMap inherited sub)))"
proof -
  have eq: "buildValidationMap inherited tree = manual_map inherited tree"
    using assms by (rule build_manual(2))
  then have t: "ValidationTree inherited tree = manual_tree inherited tree"
    by (simp add: ValidationTree_def manual_tree_def)
  have k: "Object_keys (buildValidationMap inherited tree) = Object_keys tree"
    by (simp only: eq keys_manual_map)
  have l: "map_of (buildValidationMap inherited tree) key = Some f" if "map_of tree key = Some (Leaf f)"
    using that unfolding eq by (simp add: map_of_manual_map)
  have n: "map_of (buildValidationMap inherited tree) key = Some (ValidatorMap inherited (buildValidationMap inherited sub))"
    if s: "map_of tree key = Some (Nested sub)"
  proof -
    have "wf_tree sub"
      using wf_tree_entry [OF assms s] by simp
    then have "buildValidationMap inherited sub = manual_map inherited sub"
      by (rule build_manual(2))
    with s show ?thesis unfolding eq by (simp add: map_of_manual_map)
  qed
  from t k l n show ?thesis by simp
qed

text \<open>
  The descriptor \<^verbatim>\<open>{x: {y: isString}}\<close> compiles to the validator built by hand as
  \<^verbatim>\<open>ValidatorMap({x: ValidatorMap({y: isString})})\<close>.
\<close>

theorem tree_compiler_is_manual_nesting_witness:
  "wf_tree [(''x'', Nested [(''y'', Leaf isString)])]
   \<and> ValidationTree (\<lambda>item key. None) [(''x'', Nested [(''y'', Leaf isString)])]
       = ValidatorMap (\<lambda>item key. None) [(''x'', ValidatorMap (\<lambda>item key. None) [(''y'', isString)])]
   \<and> map_of [(''x'', Nested [(''y'', Leaf isString)])] ''x'' = Some (Nested [(''y'', Leaf isString)])
   \<and> map_of (buildValidationMap (\<lambda>item key. None) [(''x'', Nested [(''y'', Leaf isString)])]) ''x''
       = Some (ValidatorMap (\<lambda>item key. None) (buildValidationMap (\<lambda>item key. None) [(''y'', Leaf isString)]))"
  using tree_compiler_is_manual_nesting [where inherited = "\<lambda>item key. None"
      and tree = "[(''x'', Nested [(''y'', Leaf isString)])]"
      and key = "''x''" and sub = "[(''y'', Leaf isString)]"]
  by (simp add: manual_tree_def Object_keys_def del: buildValidationMap.simps)

section \<open>A scenario\<close>

text \<open>
  The validator compiled from the descriptor of a person accepts a person, rejects one
  without a family name (no object inherits a property of that name), and its lookups lead
  to the validator of the given name.
\<close>

lemma buildValidationMap_person:
  "buildValidationMap inherited person =
     [(''name'', ValidatorMap inherited [(''given'', isString), (''family'', isString)]),
      (''age'', isValidNumber)]"
  by (simp add: person_def)

lemma person_accepted:
  "Call (ValidationTree inherited person)
     (VObject [(''name'', VObject [(''given'', VString ''Bob''), (''family'', VString ''X'')] None),
               (''age'', VNumber (Fin 30))] None)
   = Inr (VBoolean True)"
  unfolding ValidationTree_def buildValidationMap_person
  by (simp add: GetV_def ValidatorMap_def ValidatorMap_validate_def isMissing_def Object_keys_def
      Object_Get_def isString_def isTypeof_def isValidNumber_def isNumber_def)

lemma person_without_family_name_rejected:
  "inherited (VObject [(''given'', VString ''Bob'')] None) ''family'' = None \<Longrightarrow>
   Call (ValidationTree inherited person)
     (VObject [(''name'', VObject [(''given'', VString ''Bob'')] None),
               (''age'', VNumber (Fin 30))] None)
   = Inr (VBoolean False)"
  unfolding ValidationTree_def buildValidationMap_person
  by (simp add: GetV_def ValidatorMap_def ValidatorMap_validate_def isMissing_def Object_keys_def
      Object_Get_def isString_def isTypeof_def isValidNumber_def isNumber_def)

lemma person_lookup_chain:
  "\<exists>nm given.
     Get (ValidationTree inherited person) ''name'' = Inr (Func nm)
     \<and> Get nm ''given'' = Inr (Func given)
     \<and> Call given (VString ''Bob'') = Inr (VBoolean True)
     \<and> Call given (VNumber (Fin 123)) = Inr (VBoolean False)"
  unfolding ValidationTree_def buildValidationMap_person
  by (simp add: Get_ValidatorMap Object_Get_def isString_def isTypeof_def)

end
